theory Spec2Isabelle
  imports Main
begin

section \<open>Python values used by utm\_tracker/models.py\<close>

text \<open>
  Exceptions are values. \<open>KeyError k\<close> is the exception a dict lookup raises for the
  missing key \<open>k\<close>; \<open>ValueError msg\<close> carries its message. The remaining constructors
  stand for the exceptions that \<open>Model.save\<close> can raise from the storage layer.
\<close>

datatype exn =
    KeyError string
  | ValueError string
  | DataError string
  | IntegrityError string
  | OperationalError string

text \<open>
  \<open>repr\<close> of a Python \<open>str\<close>, for code points below 256: the quote is \<open>'\<close> unless the
  string holds a \<open>'\<close> and no \<open>"\<close>; the quote and the backslash are escaped, tab, newline
  and carriage return have their letter escapes, and every other non-printable
  character is written \<open>\xhh\<close>.
\<close>

definition hexdigit :: "nat \<Rightarrow> char" where
  "hexdigit n = ''0123456789abcdef'' ! (n mod 16)"

definition isprintable :: "char \<Rightarrow> bool" where
  "isprintable c =
     (let n = of_char c :: nat
      in (32 \<le> n \<and> n < 127) \<or> (161 \<le> n \<and> n \<noteq> 173))"

definition repr_char :: "char \<Rightarrow> char \<Rightarrow> string" where
  "repr_char q c =
     (if c = q \<or> c = CHR 0x5C then [CHR 0x5C, c]
      else if c = CHR 0x09 then [CHR 0x5C, CHR ''t'']
      else if c = CHR 0x0A then [CHR 0x5C, CHR ''n'']
      else if c = CHR 0x0D then [CHR 0x5C, CHR ''r'']
      else if isprintable c then [c]
      else [CHR 0x5C, CHR ''x'', hexdigit (of_char c div 16), hexdigit (of_char c)])"

definition repr :: "string \<Rightarrow> string" where
  "repr s =
     (let q = (if CHR 0x27 \<in> set s \<and> CHR 0x22 \<notin> set s then CHR 0x22 else CHR 0x27)
      in [q] @ concat (map (repr_char q) s) @ [q])"

text \<open>
  \<open>str(ex)\<close>: a \<open>KeyError\<close> with one argument prints the \<open>repr\<close> of that argument;
  the other exceptions print their message.
\<close>

fun str_exn :: "exn \<Rightarrow> string" where
  "str_exn (KeyError k) = repr k"
| "str_exn (ValueError m) = m"
| "str_exn (DataError m) = m"
| "str_exn (IntegrityError m) = m"
| "str_exn (OperationalError m) = m"

text \<open>
  Modelled from the spec: \<open>utm_tracker/types.py\<close> (the declaration of \<open>UtmParamsDict\<close>) is
  not among the sources; the spec describes \<open>utm_params\<close> as a mapping of string keys to
  string values.
\<close>

type_synonym UtmParamsDict = "string \<rightharpoonup> string"

text \<open>\<open>d[k]\<close> raises \<open>KeyError(k)\<close> on a missing key; \<open>d.get(k, default)\<close> never raises.\<close>

definition getitem :: "UtmParamsDict \<Rightarrow> string \<Rightarrow> exn + string" where
  "getitem d k = (case d k of None \<Rightarrow> Inl (KeyError k) | Some v \<Rightarrow> Inr v)"

definition get_default :: "UtmParamsDict \<Rightarrow> string \<Rightarrow> string \<Rightarrow> string" where
  "get_default d k dflt = (case d k of None \<Rightarrow> dflt | Some v \<Rightarrow> v)"

text \<open>\<open>SessionBase.session\_key\<close> is a string, or \<open>None\<close> when no session exists.\<close>

datatype SessionBase = SessionBase (session_key_of: "string option")

section \<open>The LeadSource model\<close>

text \<open>
  The fields of \<open>LeadSource\<close> in declaration order. \<open>id\<close> is \<open>None\<close> until the row is
  inserted; \<open>session_key\<close> holds whatever Python value was passed, a string or \<open>None\<close>.
  Times are points of a discrete clock.
\<close>

record LeadSource =
  id_field :: "nat option"
  user :: nat
  medium :: string
  source :: string
  campaign :: string
  term_field :: string
  content :: string
  timestamp :: nat
  session_key :: "string option"
  created_at :: nat

text \<open>
  The keyword arguments of \<open>LeadSource(...)\<close>. The three fields that declare a default
  (\<open>timestamp\<close>, \<open>session_key\<close>, \<open>created_at\<close>) may be omitted, which is \<open>None\<close> here;
  \<open>Some None\<close> for \<open>kw_session_key\<close> is an explicit Python \<open>None\<close>.
\<close>

record kwargs =
  kw_user :: nat
  kw_session_key :: "string option option"
  kw_medium :: string
  kw_source :: string
  kw_campaign :: string
  kw_term :: string
  kw_content :: string
  kw_timestamp :: "nat option"
  kw_created_at :: "nat option"

text \<open>
  The world the manager acts on: the persisted rows of the table, the next
  auto-increment key, the clock, and the time that will have elapsed at each of the
  coming events (a clock read, a round trip to the store).
\<close>

record world =
  table :: "LeadSource list"
  next_pk :: nat
  clock :: nat
  elapsing :: "nat list"

definition advance :: "world \<Rightarrow> world" where
  "advance w =
     (case elapsing w of
        [] \<Rightarrow> w
      | d # ds \<Rightarrow> w\<lparr>clock := clock w + d, elapsing := ds\<rparr>)"

text \<open>\<open>timezone.now()\<close>: the clock as it stands when the call is made.\<close>

definition timezone_now :: "world \<Rightarrow> nat \<times> world" where
  "timezone_now w = (let w' = advance w in (clock w', w'))"

text \<open>
  \<open>Model.__init__\<close>: each field takes the keyword argument, or its declared default when
  the argument is omitted. The defaults are evaluated in field order, so the clock is
  read for \<open>timestamp\<close> before it is read for \<open>created_at\<close>.
\<close>

definition LeadSource_init :: "kwargs \<Rightarrow> world \<Rightarrow> LeadSource \<times> world" where
  "LeadSource_init kw w =
     (let (ts, w1) = (case kw_timestamp kw of
                        None \<Rightarrow> timezone_now w
                      | Some t \<Rightarrow> (t, w));
          sk = (case kw_session_key kw of
                  None \<Rightarrow> Some []
                | Some v \<Rightarrow> v);
          (ca, w2) = (case kw_created_at kw of
                        None \<Rightarrow> timezone_now w1
                      | Some t \<Rightarrow> (t, w1))
      in (\<lparr>id_field = None, user = kw_user kw, medium = kw_medium kw,
           source = kw_source kw, campaign = kw_campaign kw, term_field = kw_term kw,
           content = kw_content kw, timestamp = ts, session_key = sk,
           created_at = ca\<rparr>, w2))"

text \<open>
  \<open>obj.save(force_insert=True)\<close>: one INSERT. The storage layer is outside the
  repository; \<open>save_error\<close> is the exception, if any, that saving this instance in this
  world raises. A rejected insert stores nothing; an accepted one appends the row under
  the next key.
\<close>

definition save ::
  "(LeadSource \<Rightarrow> world \<Rightarrow> exn option) \<Rightarrow> LeadSource \<Rightarrow> world \<Rightarrow> (exn + LeadSource) \<times> world" where
  "save save_error obj w =
     (let w1 = advance w
      in case save_error obj w1 of
           Some e \<Rightarrow> (Inl e, w1)
         | None \<Rightarrow>
             (let r = obj\<lparr>id_field := Some (next_pk w1)\<rparr>
              in (Inr r, w1\<lparr>table := table w1 @ [r], next_pk := Suc (next_pk w1)\<rparr>)))"

text \<open>\<open>Manager.create(**kwargs)\<close>: build the instance, save it, return it.\<close>

definition objects_create ::
  "(LeadSource \<Rightarrow> world \<Rightarrow> exn option) \<Rightarrow> kwargs \<Rightarrow> world \<Rightarrow> (exn + LeadSource) \<times> world" where
  "objects_create save_error kw w =
     (let (obj, w1) = LeadSource_init kw w in save save_error obj w1)"

section \<open>LeadSourceManager.create\_from\_utm\_params\<close>

text \<open>
  The \<open>except KeyError as ex\<close> clause: a \<open>KeyError\<close> becomes
  \<open>ValueError(f"Missing utm param: {ex}")\<close>, any other exception passes through.
\<close>

definition except_KeyError :: "exn \<Rightarrow> exn" where
  "except_KeyError ex =
     (case ex of
        KeyError k \<Rightarrow> ValueError (''Missing utm param: '' @ str_exn ex)
      | _ \<Rightarrow> ex)"

text \<open>
  The arguments of the \<open>create\<close> call are evaluated left to right inside the \<open>try\<close>:
  \<open>user\<close>, \<open>session.session_key\<close>, \<open>utm_params["utm_medium"]\<close>,
  \<open>utm_params["utm_source"]\<close>, then the three \<open>get\<close>s. A missing required key raises
  here, before \<open>create\<close> is called. \<open>timestamp\<close> and \<open>created_at\<close> are not passed.
\<close>

definition create_kwargs :: "nat \<Rightarrow> SessionBase \<Rightarrow> UtmParamsDict \<Rightarrow> exn + kwargs" where
  "create_kwargs usr session utm_params =
     (let sk = session_key_of session
      in case getitem utm_params ''utm_medium'' of
           Inl ex \<Rightarrow> Inl ex
         | Inr m \<Rightarrow>
             (case getitem utm_params ''utm_source'' of
                Inl ex \<Rightarrow> Inl ex
              | Inr s \<Rightarrow>
                  Inr \<lparr>kw_user = usr, kw_session_key = Some sk, kw_medium = m,
                       kw_source = s,
                       kw_campaign = get_default utm_params ''utm_campaign'' [],
                       kw_term = get_default utm_params ''utm_term'' [],
                       kw_content = get_default utm_params ''utm_content'' [],
                       kw_timestamp = None, kw_created_at = None\<rparr>))"

text \<open>
  The body of the method: the whole \<open>create\<close> call, argument evaluation included, stands
  inside the \<open>try\<close>, so whatever it raises goes through the \<open>except\<close> clause.
\<close>

definition create_from_utm_params ::
  "(LeadSource \<Rightarrow> world \<Rightarrow> exn option) \<Rightarrow> world \<Rightarrow> nat \<Rightarrow> SessionBase \<Rightarrow> UtmParamsDict
     \<Rightarrow> (exn + LeadSource) \<times> world" where
  "create_from_utm_params save_error w usr session utm_params =
     (case create_kwargs usr session utm_params of
        Inl ex \<Rightarrow> (Inl (except_KeyError ex), w)
      | Inr kw \<Rightarrow>
          (case objects_create save_error kw w of
             (Inl ex, w') \<Rightarrow> (Inl (except_KeyError ex), w')
           | (Inr r, w') \<Rightarrow> (Inr r, w')))"

text \<open>
  The storage exceptions, \<open>django.db\<close>'s \<open>DataError\<close>, \<open>IntegrityError\<close> and
  \<open>OperationalError\<close>, as opposed to Python's own \<open>KeyError\<close> and \<open>ValueError\<close>.
\<close>

fun storage_exn :: "exn \<Rightarrow> bool" where
  "storage_exn (KeyError k) = False"
| "storage_exn (ValueError m) = False"
| "storage_exn (DataError m) = True"
| "storage_exn (IntegrityError m) = True"
| "storage_exn (OperationalError m) = True"

text \<open>
  The table as \<open>models.py\<close> and migration 0004 declare it. \<open>session_key\<close> is a
  \<open>CharField\<close> without \<open>null=True\<close>, so its column is NOT NULL and a row whose
  \<open>session_key\<close> is \<open>None\<close> is rejected with an \<open>IntegrityError\<close>. The other columns
  always hold a value here; an empty string is a value, and \<open>max_length\<close> is not
  enforced on insert (as on SQLite).
\<close>

definition schema_store :: "LeadSource \<Rightarrow> world \<Rightarrow> exn option" where
  "schema_store obj w =
     (if session_key obj = None
      then Some (IntegrityError
                   ''NOT NULL constraint failed: utm_tracker_leadsource.session_key'')
      else None)"

text \<open>A store that raises a given exception on every insert.\<close>

definition store_raises :: "exn \<Rightarrow> LeadSource \<Rightarrow> world \<Rightarrow> exn option" where
  "store_raises e obj w = Some e"

section \<open>Migration 0004\_leadsource\_session\_key\<close>

text \<open>
  Stored rows are read back column by column. A table is its set of columns and its
  rows; the database maps an app label and a model name to the model's table.
\<close>

datatype db_value = Null | Str string | Num nat

type_synonym row = "string \<rightharpoonup> db_value"

record db_table =
  columns :: "string set"
  rows :: "row list"

type_synonym database = "string \<times> string \<rightharpoonup> db_table"

text \<open>
  The options of \<open>models.CharField\<close>. The migration does not pass \<open>null\<close>, which is
  then \<open>False\<close>.
\<close>

record CharField =
  blank :: bool
  default_opt :: "string option"
  help_text :: string
  max_length :: nat
  null_opt :: bool

datatype operation = AddField (model_name: string) (name: string) (field: CharField)

text \<open>
  A migration belongs to the app whose \<open>migrations\<close> package holds its file, here
  \<open>utm_tracker\<close>.
\<close>

record Migration =
  app_label :: string
  dependencies :: "(string \<times> string) list"
  operations :: "operation list"

definition Migration_0004 :: Migration where
  "Migration_0004 =
     \<lparr>app_label = ''utm_tracker'',
      dependencies = [(''utm_tracker'', ''0003_increase_medium_chars'')],
      operations =
        [AddField ''leadsource'' ''session_key''
           \<lparr>blank = True, default_opt = Some [],
            help_text = ''The session in which the params were captured.'',
            max_length = 40, null_opt = False\<rparr>]\<rparr>"

text \<open>
  The value the schema editor writes into the rows that exist when a column is added:
  the field's default when it has one, the empty string for a blank, non-null
  character field, otherwise NULL.
\<close>

definition effective_default :: "CharField \<Rightarrow> db_value" where
  "effective_default f =
     (case default_opt f of
        Some d \<Rightarrow> Str d
      | None \<Rightarrow> if \<not> null_opt f \<and> blank f then Str [] else Null)"

text \<open>
  Looking up a model that the project state does not have raises
  \<open>KeyError((app_label, model_name))\<close>.
\<close>

datatype state_error = StateKeyError string string

text \<open>
  \<open>AddField\<close> going forwards, as the SQLite schema editor does it: the table is rebuilt
  with the new column among its columns, and every existing row is copied with the
  field's effective default in that column and its other columns as they were.
\<close>

fun database_forwards :: "string \<Rightarrow> operation \<Rightarrow> database \<Rightarrow> state_error + database" where
  "database_forwards app (AddField m n f) db =
     (case db (app, m) of
        None \<Rightarrow> Inl (StateKeyError app m)
      | Some t \<Rightarrow>
          Inr (db((app, m) \<mapsto>
                 t\<lparr>columns := insert n (columns t),
                   rows := map (\<lambda>r. r(n \<mapsto> effective_default f)) (rows t)\<rparr>)))"

text \<open>A migration applies its operations in order and stops at the first error.\<close>

fun apply_operations :: "string \<Rightarrow> operation list \<Rightarrow> database \<Rightarrow> state_error + database" where
  "apply_operations app [] db = Inr db"
| "apply_operations app (op # ops) db =
     (case database_forwards app op db of
        Inl e \<Rightarrow> Inl e
      | Inr db' \<Rightarrow> apply_operations app ops db')"

definition migrate :: "Migration \<Rightarrow> database \<Rightarrow> state_error + database" where
  "migrate mig db = apply_operations (app_label mig) (operations mig) db"

section \<open>Auxiliary facts\<close>

lemma repr_medium: "repr ''utm_medium'' = CHR 0x27 # ''utm_medium'' @ [CHR 0x27]"
  by (simp add: repr_def repr_char_def isprintable_def Let_def)

lemma repr_source: "repr ''utm_source'' = CHR 0x27 # ''utm_source'' @ [CHR 0x27]"
  by (simp add: repr_def repr_char_def isprintable_def Let_def)

lemma clock_advance: "clock w \<le> clock (advance w)"
  by (simp add: advance_def split: list.split)

lemma table_advance: "table (advance w) = table w"
  by (simp add: advance_def split: list.split)

lemma next_pk_advance: "next_pk (advance w) = next_pk w"
  by (simp add: advance_def split: list.split)

lemma create_kwargs_Inr:
  "create_kwargs usr session p = Inr kw \<longleftrightarrow>
     (\<exists>m s. p ''utm_medium'' = Some m \<and> p ''utm_source'' = Some s \<and>
        kw = \<lparr>kw_user = usr, kw_session_key = Some (session_key_of session), kw_medium = m,
              kw_source = s,
              kw_campaign = get_default p ''utm_campaign'' [],
              kw_term = get_default p ''utm_term'' [],
              kw_content = get_default p ''utm_content'' [],
              kw_timestamp = None, kw_created_at = None\<rparr>)"
  by (auto simp: create_kwargs_def getitem_def split: option.splits)

lemma objects_create_Inr:
  assumes "objects_create se kw w = (Inr r, w')"
    and "kw_timestamp kw = None" and "kw_created_at kw = None"
  shows "table w' = table w @ [r] \<and> id_field r = Some (next_pk w) \<and>
         next_pk w' = Suc (next_pk w) \<and> user r = kw_user kw \<and> medium r = kw_medium kw \<and>
         source r = kw_source kw \<and> campaign r = kw_campaign kw \<and>
         term_field r = kw_term kw \<and> content r = kw_content kw \<and>
         session_key r = (case kw_session_key kw of None \<Rightarrow> Some [] | Some v \<Rightarrow> v) \<and>
         clock w \<le> timestamp r \<and> timestamp r \<le> created_at r \<and> created_at r \<le> clock w'"
  using assms clock_advance[of w] clock_advance[of "advance w"]
    clock_advance[of "advance (advance w)"]
  by (auto simp: objects_create_def LeadSource_init_def save_def timezone_now_def Let_def
      table_advance next_pk_advance split: option.splits)

lemma objects_create_Inl:
  assumes "objects_create se kw w = (Inl e, w')"
  shows "table w' = table w \<and> next_pk w' = next_pk w \<and>
         (\<exists>obj. se obj w' = Some e \<and> medium obj = kw_medium kw \<and>
            source obj = kw_source kw \<and> campaign obj = kw_campaign kw \<and>
            term_field obj = kw_term kw \<and> content obj = kw_content kw \<and>
            session_key obj = (case kw_session_key kw of None \<Rightarrow> Some [] | Some v \<Rightarrow> v))"
  using assms
  by (auto simp: objects_create_def LeadSource_init_def save_def timezone_now_def Let_def
      table_advance next_pk_advance split: option.splits prod.splits)

lemma create_from_utm_params_Inr:
  "create_from_utm_params se w usr session p = (Inr r, w') \<longleftrightarrow>
     (\<exists>kw. create_kwargs usr session p = Inr kw \<and> objects_create se kw w = (Inr r, w'))"
  by (auto simp: create_from_utm_params_def split: sum.splits prod.splits)

text \<open>
  One complete run against a store that accepts the row: the clock stands at 100 and
  advances by 1, 2 and 3 at the two clock reads and the insert.
\<close>

lemma run_cpc_google:
  "create_from_utm_params schema_store
      \<lparr>table = [], next_pk = 1, clock = 100, elapsing = [1, 2, 3]\<rparr> 7
      (SessionBase (Some ''abc'')) [''utm_medium'' \<mapsto> ''cpc'', ''utm_source'' \<mapsto> ''google'']
    = (Inr \<lparr>id_field = Some 1, user = 7, medium = ''cpc'', source = ''google'',
             campaign = [], term_field = [], content = [], timestamp = 101,
             session_key = Some ''abc'', created_at = 103\<rparr>,
       \<lparr>table = [\<lparr>id_field = Some 1, user = 7, medium = ''cpc'', source = ''google'',
             campaign = [], term_field = [], content = [], timestamp = 101,
             session_key = Some ''abc'', created_at = 103\<rparr>],
        next_pk = 2, clock = 106, elapsing = []\<rparr>)"
  by (simp add: create_from_utm_params_def create_kwargs_def getitem_def get_default_def
      objects_create_def LeadSource_init_def timezone_now_def advance_def save_def
      schema_store_def Let_def)

section \<open>Missing required keys\<close>

text \<open>
  C1. When \<open>utm_params\<close> has no \<open>utm_medium\<close>, the call fails with the \<open>ValueError\<close>
  whose message is \<open>Missing utm param: 'utm_medium'\<close>; when it has \<open>utm_medium\<close> but no
  \<open>utm_source\<close>, with the \<open>ValueError\<close> naming \<open>'utm_source'\<close>. The error is not the
  \<open>KeyError\<close> of the lookup, no field is defaulted, and the world is left as it was.
\<close>

theorem missing_required_key:
  "(utm_params ''utm_medium'' = None \<longrightarrow>
      create_from_utm_params save_error w usr session utm_params =
        (Inl (ValueError (''Missing utm param: '' @ [CHR 0x27] @ ''utm_medium'' @ [CHR 0x27])), w))
   \<and> (utm_params ''utm_medium'' \<noteq> None \<and> utm_params ''utm_source'' = None \<longrightarrow>
      create_from_utm_params save_error w usr session utm_params =
        (Inl (ValueError (''Missing utm param: '' @ [CHR 0x27] @ ''utm_source'' @ [CHR 0x27])), w))"
  by (auto simp: create_from_utm_params_def create_kwargs_def getitem_def except_KeyError_def
      repr_medium repr_source)

theorem missing_required_key_witness:
  "create_from_utm_params schema_store
      \<lparr>table = [], next_pk = 1, clock = 100, elapsing = [1, 2, 3]\<rparr> 7
      (SessionBase (Some ''abc'')) [''utm_source'' \<mapsto> ''google'']
    = (Inl (ValueError (''Missing utm param: '' @ [CHR 0x27] @ ''utm_medium'' @ [CHR 0x27])),
       \<lparr>table = [], next_pk = 1, clock = 100, elapsing = [1, 2, 3]\<rparr>)
   \<and> create_from_utm_params schema_store
      \<lparr>table = [], next_pk = 1, clock = 100, elapsing = [1, 2, 3]\<rparr> 7
      (SessionBase (Some ''abc'')) [''utm_medium'' \<mapsto> ''email'']
    = (Inl (ValueError (''Missing utm param: '' @ [CHR 0x27] @ ''utm_source'' @ [CHR 0x27])),
       \<lparr>table = [], next_pk = 1, clock = 100, elapsing = [1, 2, 3]\<rparr>)"
  using missing_required_key [of "[''utm_source'' \<mapsto> ''google'']" schema_store
      "\<lparr>table = [], next_pk = 1, clock = 100, elapsing = [1, 2, 3]\<rparr>" 7
      "SessionBase (Some ''abc'')"]
    missing_required_key [of "[''utm_medium'' \<mapsto> ''email'']" schema_store
      "\<lparr>table = [], next_pk = 1, clock = 100, elapsing = [1, 2, 3]\<rparr>" 7
      "SessionBase (Some ''abc'')"]
  by simp

section \<open>Required fields after creation\<close>

text \<open>
  C2, as stated, fails: the keys must be present, their values are not inspected. With
  both required values the empty string, and a store that accepts the row, the
  creation succeeds with \<open>medium\<close> and \<open>source\<close> empty.
\<close>

theorem empty_medium_counterexample:
  "fst (create_from_utm_params schema_store
      \<lparr>table = [], next_pk = 1, clock = 100, elapsing = [1, 2, 3]\<rparr> 7
      (SessionBase (Some ''abc'')) [''utm_medium'' \<mapsto> [], ''utm_source'' \<mapsto> []])
    = Inr \<lparr>id_field = Some 1, user = 7, medium = [], source = [], campaign = [],
           term_field = [], content = [], timestamp = 101,
           session_key = Some ''abc'', created_at = 103\<rparr>"
  by (simp add: create_from_utm_params_def create_kwargs_def getitem_def get_default_def
      objects_create_def LeadSource_init_def timezone_now_def advance_def save_def
      schema_store_def Let_def)

text \<open>
  C2, amended. After a successful creation, \<open>medium\<close> and \<open>source\<close> are the values
  that \<open>utm_params\<close> holds under \<open>utm_medium\<close> and \<open>utm_source\<close> (both keys are present),
  so each is empty exactly when the supplied value is the empty string.
\<close>

theorem medium_source_as_supplied:
  assumes "create_from_utm_params save_error w usr session utm_params = (Inr r, w')"
  shows "utm_params ''utm_medium'' = Some (medium r) \<and>
         utm_params ''utm_source'' = Some (source r) \<and>
         (medium r = [] \<longleftrightarrow> utm_params ''utm_medium'' = Some []) \<and>
         (source r = [] \<longleftrightarrow> utm_params ''utm_source'' = Some [])"
proof -
  from assms obtain kw where kw: "create_kwargs usr session utm_params = Inr kw"
    and oc: "objects_create save_error kw w = (Inr r, w')"
    unfolding create_from_utm_params_Inr by blast
  from kw obtain m s where ms: "utm_params ''utm_medium'' = Some m"
      "utm_params ''utm_source'' = Some s" "kw_medium kw = m" "kw_source kw = s"
      "kw_timestamp kw = None" "kw_created_at kw = None"
    unfolding create_kwargs_Inr by auto
  from objects_create_Inr [OF oc ms(5,6)] ms show ?thesis by auto
qed

theorem medium_source_as_supplied_witness:
  "create_from_utm_params schema_store
      \<lparr>table = [], next_pk = 1, clock = 100, elapsing = [1, 2, 3]\<rparr> 7
      (SessionBase (Some ''abc'')) [''utm_medium'' \<mapsto> ''cpc'', ''utm_source'' \<mapsto> ''google'']
    = (Inr \<lparr>id_field = Some 1, user = 7, medium = ''cpc'', source = ''google'',
             campaign = [], term_field = [], content = [], timestamp = 101,
             session_key = Some ''abc'', created_at = 103\<rparr>,
       \<lparr>table = [\<lparr>id_field = Some 1, user = 7, medium = ''cpc'', source = ''google'',
             campaign = [], term_field = [], content = [], timestamp = 101,
             session_key = Some ''abc'', created_at = 103\<rparr>],
        next_pk = 2, clock = 106, elapsing = []\<rparr>)
   \<and> [''utm_medium'' \<mapsto> ''cpc'', ''utm_source'' \<mapsto> ''google''] ''utm_medium'' = Some ''cpc''
   \<and> [''utm_medium'' \<mapsto> ''cpc'', ''utm_source'' \<mapsto> ''google''] ''utm_source'' = Some ''google''"
  using medium_source_as_supplied [OF run_cpc_google] run_cpc_google by simp

section \<open>Optional keys\<close>




section \<open>What a successful creation persists\<close>

text \<open>
  C4. A successful call appends exactly one row to the table, the record it returns,
  which carries the key the store assigned. Its five attribution fields are the values
  of \<open>utm_params\<close>, the empty string standing for an absent optional key; its
  \<open>timestamp\<close> and \<open>created_at\<close> lie between the clock at the start of the call and the
  clock at its end.
\<close>

theorem creation_persists_one_record:
  assumes "create_from_utm_params save_error w usr session utm_params = (Inr r, w')"
  shows "table w' = table w @ [r] \<and> id_field r = Some (next_pk w) \<and>
         next_pk w' = Suc (next_pk w) \<and> user r = usr \<and>
         utm_params ''utm_medium'' = Some (medium r) \<and>
         utm_params ''utm_source'' = Some (source r) \<and>
         campaign r = (case utm_params ''utm_campaign'' of None \<Rightarrow> [] | Some v \<Rightarrow> v) \<and>
         term_field r = (case utm_params ''utm_term'' of None \<Rightarrow> [] | Some v \<Rightarrow> v) \<and>
         content r = (case utm_params ''utm_content'' of None \<Rightarrow> [] | Some v \<Rightarrow> v) \<and>
         clock w \<le> timestamp r \<and> timestamp r \<le> clock w' \<and>
         clock w \<le> created_at r \<and> created_at r \<le> clock w'"
proof -
  from assms obtain kw where kw: "create_kwargs usr session utm_params = Inr kw"
    and oc: "objects_create save_error kw w = (Inr r, w')"
    unfolding create_from_utm_params_Inr by blast
  from kw obtain m s where ms: "utm_params ''utm_medium'' = Some m"
      "utm_params ''utm_source'' = Some s" "kw_medium kw = m" "kw_source kw = s"
      "kw_timestamp kw = None" "kw_created_at kw = None" "kw_user kw = usr"
      "kw_campaign kw = get_default utm_params ''utm_campaign'' []"
      "kw_term kw = get_default utm_params ''utm_term'' []"
      "kw_content kw = get_default utm_params ''utm_content'' []"
    unfolding create_kwargs_Inr by auto
  from objects_create_Inr [OF oc ms(5,6)] ms show ?thesis
    by (auto simp: get_default_def)
qed

theorem creation_persists_one_record_witness:
  "fst (create_from_utm_params schema_store
      \<lparr>table = [], next_pk = 1, clock = 100, elapsing = [1, 2, 3]\<rparr> 7
      (SessionBase (Some ''abc'')) [''utm_medium'' \<mapsto> ''cpc'', ''utm_source'' \<mapsto> ''google''])
    = Inr \<lparr>id_field = Some 1, user = 7, medium = ''cpc'', source = ''google'',
            campaign = [], term_field = [], content = [], timestamp = 101,
            session_key = Some ''abc'', created_at = 103\<rparr>
   \<and> table (snd (create_from_utm_params schema_store
      \<lparr>table = [], next_pk = 1, clock = 100, elapsing = [1, 2, 3]\<rparr> 7
      (SessionBase (Some ''abc'')) [''utm_medium'' \<mapsto> ''cpc'', ''utm_source'' \<mapsto> ''google'']))
    = [\<lparr>id_field = Some 1, user = 7, medium = ''cpc'', source = ''google'',
        campaign = [], term_field = [], content = [], timestamp = 101,
        session_key = Some ''abc'', created_at = 103\<rparr>]
   \<and> clock (snd (create_from_utm_params schema_store
      \<lparr>table = [], next_pk = 1, clock = 100, elapsing = [1, 2, 3]\<rparr> 7
      (SessionBase (Some ''abc'')) [''utm_medium'' \<mapsto> ''cpc'', ''utm_source'' \<mapsto> ''google'']))
    = 106"
  using creation_persists_one_record [OF run_cpc_google] run_cpc_google by simp

section \<open>The session key\<close>

text \<open>
  C5. After a successful call the record's \<open>session_key\<close> is the session's
  \<open>session_key\<close> as read at the call, the empty string included.
\<close>

theorem session_key_copied:
  assumes "create_from_utm_params save_error w usr session utm_params = (Inr r, w')"
  shows "session_key r = session_key_of session"
proof -
  from assms obtain kw where kw: "create_kwargs usr session utm_params = Inr kw"
    and oc: "objects_create save_error kw w = (Inr r, w')"
    unfolding create_from_utm_params_Inr by blast
  from kw have "kw_session_key kw = Some (session_key_of session)"
      "kw_timestamp kw = None" "kw_created_at kw = None"
    unfolding create_kwargs_Inr by auto
  with objects_create_Inr [OF oc] show ?thesis by simp
qed

theorem session_key_copied_witness:
  "fst (create_from_utm_params schema_store
      \<lparr>table = [], next_pk = 1, clock = 100, elapsing = [1, 2, 3]\<rparr> 7
      (SessionBase (Some [])) [''utm_medium'' \<mapsto> ''cpc'', ''utm_source'' \<mapsto> ''google''])
    = Inr \<lparr>id_field = Some 1, user = 7, medium = ''cpc'', source = ''google'',
            campaign = [], term_field = [], content = [], timestamp = 101,
            session_key = Some [], created_at = 103\<rparr>
   \<and> session_key_of (SessionBase (Some [])) = Some []"
proof -
  let ?w = "\<lparr>table = [], next_pk = 1, clock = 100, elapsing = [1, 2, 3]\<rparr>"
  let ?p = "[''utm_medium'' \<mapsto> ''cpc'', ''utm_source'' \<mapsto> ''google'']"
  let ?r = "\<lparr>id_field = Some 1, user = 7, medium = ''cpc'', source = ''google'',
            campaign = [], term_field = [], content = [], timestamp = 101,
            session_key = Some [], created_at = 103\<rparr>"
  have f: "fst (create_from_utm_params schema_store ?w 7 (SessionBase (Some [])) ?p) = Inr ?r"
    by (simp add: create_from_utm_params_def create_kwargs_def getitem_def get_default_def
      objects_create_def LeadSource_init_def timezone_now_def advance_def save_def
      schema_store_def Let_def)
  then have a: "create_from_utm_params schema_store ?w 7 (SessionBase (Some [])) ?p
      = (Inr ?r, snd (create_from_utm_params schema_store ?w 7 (SessionBase (Some [])) ?p))"
    by (simp add: prod_eq_iff)
  from session_key_copied [OF a] f show ?thesis by simp
qed




section \<open>Failures of the store\<close>

text \<open>
  C6. When the arguments evaluate and the persistence operation, \<open>create\<close>, fails with
  a storage exception (a value too long for its column, a violated constraint, a store
  that cannot be reached), the call fails with that same exception, in the world that
  one \<open>create\<close> left: the failure is not caught, changed or retried.
\<close>

theorem store_failure_propagates:
  assumes "create_kwargs usr session utm_params = Inr kw"
    and "objects_create save_error kw w = (Inl e, w')"
    and "storage_exn e"
  shows "create_from_utm_params save_error w usr session utm_params = (Inl e, w')"
proof -
  from assms(3) have "except_KeyError e = e"
    by (cases e) (simp_all add: except_KeyError_def)
  with assms(1,2) show ?thesis by (simp add: create_from_utm_params_def)
qed

theorem store_failure_propagates_witness:
  "create_from_utm_params (store_raises (OperationalError ''database is locked''))
      \<lparr>table = [], next_pk = 1, clock = 100, elapsing = [1, 2, 3]\<rparr> 7
      (SessionBase (Some ''abc'')) [''utm_medium'' \<mapsto> ''cpc'', ''utm_source'' \<mapsto> ''google'']
    = (Inl (OperationalError ''database is locked''),
       \<lparr>table = [], next_pk = 1, clock = 106, elapsing = []\<rparr>)"
  by (rule store_failure_propagates [where kw =
      "\<lparr>kw_user = 7, kw_session_key = Some (Some ''abc''), kw_medium = ''cpc'',
       kw_source = ''google'', kw_campaign = [], kw_term = [], kw_content = [],
       kw_timestamp = None, kw_created_at = None\<rparr>"])
    (simp_all add: create_kwargs_def getitem_def get_default_def
      objects_create_def LeadSource_init_def timezone_now_def advance_def save_def
      store_raises_def Let_def)

text \<open>
  C7. A call that fails, for a missing key or in the store, leaves the table and the
  next key as they were.
\<close>

theorem failure_persists_nothing:
  assumes "create_from_utm_params save_error w usr session utm_params = (Inl e, w')"
  shows "table w' = table w \<and> next_pk w' = next_pk w"
proof (cases "create_kwargs usr session utm_params")
  case (Inl ex)
  with assms show ?thesis by (simp add: create_from_utm_params_def)
next
  case (Inr kw)
  obtain res w1 where oc: "objects_create save_error kw w = (res, w1)"
    by (cases "objects_create save_error kw w")
  with assms Inr obtain e0 where "res = Inl e0" and "w' = w1"
    by (cases res) (auto simp: create_from_utm_params_def)
  with oc objects_create_Inl [of save_error kw w e0 w1] show ?thesis by simp
qed

theorem failure_persists_nothing_witness:
  "table (snd (create_from_utm_params (store_raises (DataError ''value too long''))
      \<lparr>table = [], next_pk = 1, clock = 100, elapsing = [1, 2, 3]\<rparr> 7
      (SessionBase (Some ''abc'')) [''utm_medium'' \<mapsto> ''cpc'', ''utm_source'' \<mapsto> ''google''])) = []
   \<and> table (snd (create_from_utm_params schema_store
      \<lparr>table = [], next_pk = 1, clock = 100, elapsing = [1, 2, 3]\<rparr> 7
      (SessionBase (Some ''abc'')) [''utm_source'' \<mapsto> ''google''])) = []"
proof -
  let ?w = "\<lparr>table = [], next_pk = 1, clock = 100, elapsing = [1, 2, 3]\<rparr>"
  have a: "create_from_utm_params (store_raises (DataError ''value too long'')) ?w 7
      (SessionBase (Some ''abc'')) [''utm_medium'' \<mapsto> ''cpc'', ''utm_source'' \<mapsto> ''google'']
    = (Inl (DataError ''value too long''),
       snd (create_from_utm_params (store_raises (DataError ''value too long'')) ?w 7
      (SessionBase (Some ''abc'')) [''utm_medium'' \<mapsto> ''cpc'', ''utm_source'' \<mapsto> ''google'']))"
    by (simp add: create_from_utm_params_def create_kwargs_def getitem_def get_default_def
      objects_create_def LeadSource_init_def timezone_now_def advance_def save_def
      store_raises_def except_KeyError_def Let_def)
  have b: "create_from_utm_params schema_store ?w 7
      (SessionBase (Some ''abc'')) [''utm_source'' \<mapsto> ''google'']
    = (Inl (except_KeyError (KeyError ''utm_medium'')),
       snd (create_from_utm_params schema_store ?w 7
      (SessionBase (Some ''abc'')) [''utm_source'' \<mapsto> ''google'']))"
    by (simp add: create_from_utm_params_def create_kwargs_def getitem_def)
  from failure_persists_nothing [OF a] failure_persists_nothing [OF b]
  show ?thesis by simp
qed

section \<open>Keys outside the five UTM keys\<close>

text \<open>
  C10. Two mappings that agree on \<open>utm_medium\<close>, \<open>utm_source\<close>, \<open>utm_campaign\<close>,
  \<open>utm_term\<close> and \<open>utm_content\<close> give the same result, record and world, for the same
  user, session and starting world, whatever other keys they hold.
\<close>

theorem unrecognized_keys_ignored:
  assumes "\<forall>k \<in> {''utm_medium'', ''utm_source'', ''utm_campaign'', ''utm_term'', ''utm_content''}.
             p1 k = p2 k"
  shows "create_from_utm_params save_error w usr session p1 =
         create_from_utm_params save_error w usr session p2"
proof -
  from assms have e: "p1 ''utm_medium'' = p2 ''utm_medium''" "p1 ''utm_source'' = p2 ''utm_source''"
      "p1 ''utm_campaign'' = p2 ''utm_campaign''" "p1 ''utm_term'' = p2 ''utm_term''"
      "p1 ''utm_content'' = p2 ''utm_content''"
    by simp_all
  have "create_kwargs usr session p1 = create_kwargs usr session p2"
    unfolding create_kwargs_def getitem_def get_default_def e ..
  then show ?thesis by (simp add: create_from_utm_params_def)
qed

theorem unrecognized_keys_ignored_witness:
  "create_from_utm_params schema_store
      \<lparr>table = [], next_pk = 1, clock = 100, elapsing = [1, 2, 3]\<rparr> 7 (SessionBase (Some ''abc''))
      [''utm_medium'' \<mapsto> ''cpc'', ''utm_source'' \<mapsto> ''google'', ''gclid'' \<mapsto> ''x1'']
   = create_from_utm_params schema_store
      \<lparr>table = [], next_pk = 1, clock = 100, elapsing = [1, 2, 3]\<rparr> 7 (SessionBase (Some ''abc''))
      [''utm_medium'' \<mapsto> ''cpc'', ''utm_source'' \<mapsto> ''google'', ''page'' \<mapsto> ''2'']"
  using unrecognized_keys_ignored [of
      "[''utm_medium'' \<mapsto> ''cpc'', ''utm_source'' \<mapsto> ''google'', ''gclid'' \<mapsto> ''x1'']"
      "[''utm_medium'' \<mapsto> ''cpc'', ''utm_source'' \<mapsto> ''google'', ''page'' \<mapsto> ''2'']"
      schema_store "\<lparr>table = [], next_pk = 1, clock = 100, elapsing = [1, 2, 3]\<rparr>" 7
      "SessionBase (Some ''abc'')"]
  by simp

section \<open>Backfill of session\_key\<close>

text \<open>
  C8. Migration 0004 applies to every database that has the \<open>leadsource\<close> table of
  \<open>utm_tracker\<close>; it keeps every row and every other column, and every row that
  existed reads back \<open>session_key\<close> as the empty string.
\<close>

theorem session_key_backfilled:
  assumes "db (''utm_tracker'', ''leadsource'') = Some t"
  shows "\<exists>db' t'. migrate Migration_0004 db = Inr db' \<and>
           db' (''utm_tracker'', ''leadsource'') = Some t' \<and>
           columns t' = insert ''session_key'' (columns t) \<and>
           length (rows t') = length (rows t) \<and>
           (\<forall>i<length (rows t).
              (rows t' ! i) ''session_key'' = Some (Str []) \<and>
              (\<forall>c. c \<noteq> ''session_key'' \<longrightarrow> (rows t' ! i) c = (rows t ! i) c))"
proof -
  let ?t' = "t\<lparr>columns := insert ''session_key'' (columns t),
                rows := map (\<lambda>r. r(''session_key'' \<mapsto> Str [])) (rows t)\<rparr>"
  let ?db' = "db((''utm_tracker'', ''leadsource'') \<mapsto> ?t')"
  have "migrate Migration_0004 db = Inr ?db'"
    using assms by (simp add: migrate_def Migration_0004_def effective_default_def)
  moreover have "?db' (''utm_tracker'', ''leadsource'') = Some ?t'" by simp
  moreover have "columns ?t' = insert ''session_key'' (columns t)" by simp
  moreover have "length (rows ?t') = length (rows t)" by simp
  moreover have "\<forall>i<length (rows t).
              (rows ?t' ! i) ''session_key'' = Some (Str []) \<and>
              (\<forall>c. c \<noteq> ''session_key'' \<longrightarrow> (rows ?t' ! i) c = (rows t ! i) c)"
    by simp
  ultimately show ?thesis by blast
qed

theorem session_key_backfilled_witness:
  "\<exists>db' t'. migrate Migration_0004
           [(''utm_tracker'', ''leadsource'') \<mapsto> \<lparr>columns = {''id'', ''medium''},
               rows = [[''id'' \<mapsto> Num 1, ''medium'' \<mapsto> Str ''cpc''],
                       [''id'' \<mapsto> Num 2, ''medium'' \<mapsto> Str ''email'']]\<rparr>] = Inr db' \<and>
         db' (''utm_tracker'', ''leadsource'') = Some t' \<and>
         (rows t' ! 0) ''session_key'' = Some (Str []) \<and>
         (rows t' ! 1) ''session_key'' = Some (Str []) \<and>
         (rows t' ! 1) ''medium'' = Some (Str ''email'')"
proof -
  let ?t = "\<lparr>columns = {''id'', ''medium''},
               rows = [[''id'' \<mapsto> Num 1, ''medium'' \<mapsto> Str ''cpc''],
                       [''id'' \<mapsto> Num 2, ''medium'' \<mapsto> Str ''email'']]\<rparr>"
  have h: "[(''utm_tracker'', ''leadsource'') \<mapsto> ?t] (''utm_tracker'', ''leadsource'') = Some ?t"
    by simp
  from session_key_backfilled [of "[(''utm_tracker'', ''leadsource'') \<mapsto> ?t]" ?t, OF h]
  obtain db' t' where
    m: "migrate Migration_0004 [(''utm_tracker'', ''leadsource'') \<mapsto> ?t] = Inr db'"
      "db' (''utm_tracker'', ''leadsource'') = Some t'"
    and r: "\<forall>i<length (rows ?t).
              (rows t' ! i) ''session_key'' = Some (Str []) \<and>
              (\<forall>c. c \<noteq> ''session_key'' \<longrightarrow> (rows t' ! i) c = (rows ?t ! i) c)"
    by blast
  from r have "(rows t' ! 0) ''session_key'' = Some (Str [])"
    and "(rows t' ! 1) ''session_key'' = Some (Str [])"
    and "(rows t' ! 1) ''medium'' = Some (Str ''email'')"
    by simp_all
  with m show ?thesis by blast
qed

end
